theory Spec2Isabelle
  imports Main "HOL-Library.Sublist" "HOL-Library.Multiset"
begin

section \<open>Results, errors and panics\<close>

text \<open>
  A Go function of result type \<open>(T, error)\<close> is modelled with result type \<open>error + T\<close>.
  \<open>Error msg\<close> is a returned, non-nil \<open>error\<close> whose \<open>Error()\<close> text is \<open>msg\<close>;
  \<open>Panic msg\<close> is a run-time panic (the function does not return at all).
\<close>

datatype error = Error string | Panic string

section \<open>The library functions the package calls\<close>

subsection \<open>Decimal integers: \<open>strconv.Itoa\<close> and \<open>strconv.Atoi\<close>\<close>

text \<open>Go's \<open>int\<close> is taken as the 64-bit signed integer of the usual platforms.\<close>

definition MinInt :: int where
  "MinInt = - (2 ^ 63)"

definition MaxInt :: int where
  "MaxInt = 2 ^ 63 - 1"

definition wrap_int :: "int \<Rightarrow> int" where
  \<comment> \<open>the two's complement result of an \<open>int\<close> operation whose exact value is the argument\<close>
  "wrap_int x = (x + 2 ^ 63) mod 2 ^ 64 - 2 ^ 63"

definition is_digit :: "char \<Rightarrow> bool" where
  "is_digit c = (c \<in> set ''0123456789'')"

definition digit_char :: "nat \<Rightarrow> char" where
  "digit_char d = ''0123456789'' ! d"

definition digit_val :: "char \<Rightarrow> int" where
  "digit_val c = of_char c - 48"

text \<open>The decimal digits of a number that is not negative.\<close>

function show_digits :: "int \<Rightarrow> string" where
  "show_digits n =
     (if n < 10 then [digit_char (nat n)]
      else show_digits (n div 10) @ [digit_char (nat (n mod 10))])"
  by pat_completeness auto
termination
  by (relation "measure nat") auto

declare show_digits.simps [simp del]

definition Itoa :: "int \<Rightarrow> string" where
  "Itoa i = (if i < 0 then CHR ''-'' # show_digits (- i) else show_digits i)"

definition digits_val :: "string \<Rightarrow> int" where
  "digits_val ds = foldl (\<lambda>a c. 10 * a + digit_val c) 0 ds"

text \<open>
  \<open>Atoi\<close> accepts an optional sign and at least one decimal digit; a value outside the
  range of \<open>int\<close> is an error. The quoting of the offending text in the message is
  written without escapes, which is what Go prints for the sign-and-digit texts this
  package passes.
\<close>

definition Atoi :: "string \<Rightarrow> error + int" where
  "Atoi s =
     (let (neg, ds) = (case s of
                         c # r \<Rightarrow> if c = CHR ''-'' then (True, r)
                                  else if c = CHR ''+'' then (False, r) else (False, s)
                       | [] \<Rightarrow> (False, s))
      in if ds = [] \<or> \<not> list_all is_digit ds
         then Inl (Error (''strconv.Atoi: parsing '' @ [CHR 0x22] @ s @ [CHR 0x22] @ '': invalid syntax''))
         else let v = (if neg then - digits_val ds else digits_val ds)
              in if v < MinInt \<or> MaxInt < v
                 then Inl (Error (''strconv.Atoi: parsing '' @ [CHR 0x22] @ s @ [CHR 0x22] @ '': value out of range''))
                 else Inr v)"

subsection \<open>\<open>strings.Split\<close> (separator one space), \<open>Join\<close>, \<open>Contains\<close>, \<open>TrimSpace\<close>\<close>

fun Split :: "string \<Rightarrow> string list" where
  "Split [] = [[]]"
| "Split (c # cs) =
     (if c = CHR '' '' then [] # Split cs
      else (case Split cs of x # xs \<Rightarrow> (c # x) # xs | [] \<Rightarrow> [[c]]))"

fun Join :: "string list \<Rightarrow> string" where
  "Join [] = []"
| "Join [x] = x"
| "Join (x # y # ys) = x @ CHR '' '' # Join (y # ys)"

fun Contains :: "string \<Rightarrow> string \<Rightarrow> bool" where
  "Contains [] sub = (sub = [])"
| "Contains (c # cs) sub = (prefix sub (c # cs) \<or> Contains cs sub)"

text \<open>
  \<open>TrimSpace\<close> removes the white space of Unicode at both ends. On the UTF-8 bytes of
  a Go string these are the six ASCII characters below and the encodings of U+0085,
  U+00A0, U+1680, U+2000 to U+200A, U+2028, U+2029, U+202F, U+205F and U+3000.
\<close>

definition ascii_space :: "char \<Rightarrow> bool" where
  "ascii_space c = (c \<in> {CHR 0x09, CHR 0x0A, CHR 0x0B, CHR 0x0C, CHR 0x0D, CHR '' ''})"

definition unicode_spaces :: "string list" where
  "unicode_spaces =
     [[CHR 0xC2, CHR 0x85], [CHR 0xC2, CHR 0xA0], [CHR 0xE1, CHR 0x9A, CHR 0x80],
      [CHR 0xE2, CHR 0x80, CHR 0x80], [CHR 0xE2, CHR 0x80, CHR 0x81],
      [CHR 0xE2, CHR 0x80, CHR 0x82], [CHR 0xE2, CHR 0x80, CHR 0x83],
      [CHR 0xE2, CHR 0x80, CHR 0x84], [CHR 0xE2, CHR 0x80, CHR 0x85],
      [CHR 0xE2, CHR 0x80, CHR 0x86], [CHR 0xE2, CHR 0x80, CHR 0x87],
      [CHR 0xE2, CHR 0x80, CHR 0x88], [CHR 0xE2, CHR 0x80, CHR 0x89],
      [CHR 0xE2, CHR 0x80, CHR 0x8A], [CHR 0xE2, CHR 0x80, CHR 0xA8],
      [CHR 0xE2, CHR 0x80, CHR 0xA9], [CHR 0xE2, CHR 0x80, CHR 0xAF],
      [CHR 0xE2, CHR 0x81, CHR 0x9F], [CHR 0xE3, CHR 0x80, CHR 0x80]]"

fun TrimLeft :: "string list \<Rightarrow> string \<Rightarrow> string" where
  \<comment> \<open>the first argument lists the multi-byte spaces, in the direction of the scan\<close>
  "TrimLeft sps [] = []"
| "TrimLeft sps (c # cs) =
     (if ascii_space c then TrimLeft sps cs
      else (case cs of
              c2 # r2 \<Rightarrow>
                if [c, c2] \<in> set sps then TrimLeft sps r2
                else (case r2 of
                        c3 # r3 \<Rightarrow> if [c, c2, c3] \<in> set sps then TrimLeft sps r3 else c # cs
                      | [] \<Rightarrow> c # cs)
            | [] \<Rightarrow> c # cs))"

definition TrimSpace :: "string \<Rightarrow> string" where
  "TrimSpace s = rev (TrimLeft (map rev unicode_spaces) (rev (TrimLeft unicode_spaces s)))"

section \<open>The data of the package\<close>

record Score =
  Eval :: string
  Value :: int

record Info =
  Depth :: int
  Seldepth :: int
  Multipv :: int
  Score :: Score
  Nodes :: int
  Nps :: int
  Tbhits :: int
  Time :: int
  Pv :: string

record BestMove =
  Move :: string
  Ponder :: string
  Info :: "Info option"

definition zero_Info :: Info where
  \<comment> \<open>the zero value \<open>&Info{}\<close>\<close>
  "zero_Info = \<lparr>Depth = 0, Seldepth = 0, Multipv = 0, Score = \<lparr>Eval = [], Value = 0\<rparr>,
                 Nodes = 0, Nps = 0, Tbhits = 0, Time = 0, Pv = []\<rparr>"

section \<open>ParseBestMove\<close>

definition index :: "string list \<Rightarrow> nat \<Rightarrow> error + string" where
  \<comment> \<open>\<open>xs[i]\<close> on a slice: out of range is a run-time panic\<close>
  "index xs i =
     (if i < length xs then Inr (xs ! i)
      else Inl (Panic (''runtime error: index out of range ['' @ Itoa (int i) @ ''] with length ''
                        @ Itoa (int (length xs)))))"

definition ParseBestMove :: "string \<Rightarrow> error + BestMove" where
  "ParseBestMove line =
     (let splitText = Split line in
      case (if length splitText < 3 then Inr [] else index splitText 3) of
        Inl e \<Rightarrow> Inl e
      | Inr ponder \<Rightarrow>
          (case index splitText 1 of
             Inl e \<Rightarrow> Inl e
           | Inr move \<Rightarrow> Inr \<lparr>Move = move, Ponder = ponder, Info = None\<rparr>))"

definition is_Panic :: "error + 'a \<Rightarrow> bool" where
  "is_Panic r = (case r of Inl (Panic m) \<Rightarrow> True | _ \<Rightarrow> False)"

definition is_Error :: "error + 'a \<Rightarrow> bool" where
  "is_Error r = (case r of Inl (Error m) \<Rightarrow> True | _ \<Rightarrow> False)"

section \<open>The regular expressions of ParseInfo\<close>

text \<open>
  \<open>FindAllStringSubmatch(line, -1)\<close> is \<open>nil\<close> when the expression matches nowhere
  in the line; otherwise its entry \<open>[0]\<close> is the leftmost match, with its groups.
  \<open>find_first\<close> tries an anchored matcher at every position from the left. The four
  expressions of ParseInfo are written as anchored matchers. In each of them a
  repetition is followed either by nothing or by a character outside the repeated
  class, so the leftmost-first match of Go takes the longest run at every repetition.
\<close>

fun find_first :: "(string \<Rightarrow> 'a option) \<Rightarrow> string \<Rightarrow> 'a option" where
  "find_first m [] = m []"
| "find_first m (c # cs) = (case m (c # cs) of Some r \<Rightarrow> Some r | None \<Rightarrow> find_first m cs)"

fun strip_prefix :: "string \<Rightarrow> string \<Rightarrow> string option" where
  "strip_prefix [] s = Some s"
| "strip_prefix (p # ps) [] = None"
| "strip_prefix (p # ps) (c # cs) = (if p = c then strip_prefix ps cs else None)"

definition is_file :: "char \<Rightarrow> bool" where
  \<comment> \<open>\<open>[a-h]\<close>\<close>
  "is_file c = (c \<in> set ''abcdefgh'')"

definition is_promo :: "char \<Rightarrow> bool" where
  \<comment> \<open>\<open>[qrnb]\<close>\<close>
  "is_promo c = (c \<in> set ''qrnb'')"

definition is_word :: "char \<Rightarrow> bool" where
  \<comment> \<open>\<open>\w\<close>\<close>
  "is_word c = (c \<in> set ''0123456789ABCDEFGHIJKLMNOPQRSTUVWXYZ_abcdefghijklmnopqrstuvwxyz'')"

text \<open>\<open>UCIMoveRegex\<close>: the matched text and the rest of the input.\<close>

fun match_move :: "string \<Rightarrow> (string \<times> string) option" where
  "match_move (f1 # r1 # f2 # r2 # rest) =
     (if is_file f1 \<and> is_digit r1 \<and> is_file f2 \<and> is_digit r2
      then (case rest of
              p # rest' \<Rightarrow> if is_promo p then Some ([f1, r1, f2, r2, p], rest')
                           else Some ([f1, r1, f2, r2], rest)
            | [] \<Rightarrow> Some ([f1, r1, f2, r2], rest))
      else None)"
| "match_move _ = None"

text \<open>The repetition \<open>( move)*\<close> of \<open>PVRegex\<close>: the text it matches.\<close>

function more_moves :: "string \<Rightarrow> string" where
  "more_moves s =
     (case s of
        [] \<Rightarrow> []
      | c # cs \<Rightarrow>
          if c = CHR '' '' then
            (case match_move cs of
               None \<Rightarrow> []
             | Some (m, rest) \<Rightarrow> c # m @ more_moves rest)
          else [])"
  by pat_completeness auto
termination
proof (relation "measure length")
  show "wf (measure length)" by simp
next
  fix s :: string and c cs x2 m rest
  assume "s = c # cs" and "match_move cs = Some x2" and "(m, rest) = x2"
  then have "match_move cs = Some (m, rest)" by simp
  then have "length rest \<le> length cs"
    by (cases cs rule: match_move.cases) (auto split: if_splits list.splits)
  with \<open>s = c # cs\<close> show "(rest, s) \<in> measure length" by simp
qed

declare more_moves.simps [simp del]

definition match_pv :: "string \<Rightarrow> string option" where
  \<comment> \<open>\<open>PVRegex\<close>; the result is the group \<open>move_list\<close>\<close>
  "match_pv s =
     (case strip_prefix '' pv '' s of
        None \<Rightarrow> None
      | Some r \<Rightarrow>
          (case match_move r of
             None \<Rightarrow> None
           | Some (m, rest) \<Rightarrow> Some (m @ more_moves rest)))"

definition match_score :: "string \<Rightarrow> (string \<times> string) option" where
  \<comment> \<open>\<open>score (?P<eval>\w+) (?P<value>-?\d+)\<close>; the result is the two groups\<close>
  "match_score s =
     (case strip_prefix ''score '' s of
        None \<Rightarrow> None
      | Some r1 \<Rightarrow>
          if takeWhile is_word r1 = [] then None
          else (case strip_prefix '' '' (dropWhile is_word r1) of
                  None \<Rightarrow> None
                | Some r3 \<Rightarrow>
                    let (sign, r4) = (case r3 of
                                        [] \<Rightarrow> ([], r3)
                                      | c # cs \<Rightarrow> if c = CHR ''-'' then ([c], cs) else ([], r3))
                    in if takeWhile is_digit r4 = [] then None
                       else Some (takeWhile is_word r1, sign @ takeWhile is_digit r4)))"

definition match_field :: "string \<Rightarrow> string \<Rightarrow> string option" where
  \<comment> \<open>\<open>field + ` (?P<value>\d+)`\<close>; the result is the group \<open>value\<close>\<close>
  "match_field field s =
     (case strip_prefix (field @ '' '') s of
        None \<Rightarrow> None
      | Some r \<Rightarrow> if takeWhile is_digit r = [] then None else Some (takeWhile is_digit r))"

definition not_space :: "char \<Rightarrow> bool" where
  \<comment> \<open>\<open>[^ ]\<close>\<close>
  "not_space c = (c \<noteq> CHR '' '')"

definition match_notice :: "string \<Rightarrow> unit option" where
  \<comment> \<open>\<open>info string [^ ]+ evaluation using [^ ]+ enabled\<close>\<close>
  "match_notice s =
     (case strip_prefix ''info string '' s of
        None \<Rightarrow> None
      | Some r1 \<Rightarrow>
          if takeWhile not_space r1 = [] then None
          else (case strip_prefix '' evaluation using '' (dropWhile not_space r1) of
                  None \<Rightarrow> None
                | Some r2 \<Rightarrow>
                    if takeWhile not_space r2 = [] then None
                    else (case strip_prefix '' enabled'' (dropWhile not_space r2) of
                            None \<Rightarrow> None
                          | Some r3 \<Rightarrow> Some ())))"

section \<open>ParseInfo\<close>

definition singleValueFields :: "string list" where
  "singleValueFields = [''depth'', ''seldepth'', ''multipv'', ''nodes'', ''nps'', ''tbhits'', ''time'']"

definition set_field :: "string \<Rightarrow> int \<Rightarrow> Info \<Rightarrow> Info" where
  "set_field field v result =
     (if field = ''depth'' then result\<lparr>Depth := v\<rparr>
      else if field = ''seldepth'' then result\<lparr>Seldepth := v\<rparr>
      else if field = ''multipv'' then result\<lparr>Multipv := v\<rparr>
      else if field = ''nodes'' then result\<lparr>Nodes := v\<rparr>
      else if field = ''nps'' then result\<lparr>Nps := v\<rparr>
      else if field = ''tbhits'' then result\<lparr>Tbhits := v\<rparr>
      else if field = ''time'' then result\<lparr>Time := v\<rparr>
      else result)"

text \<open>The loop over \<open>singleValueFields\<close>.\<close>

fun parse_fields :: "string \<Rightarrow> string list \<Rightarrow> Info \<Rightarrow> error + Info" where
  "parse_fields line [] result = Inr result"
| "parse_fields line (field # others) result =
     (case find_first (match_field field) line of
        None \<Rightarrow> Inl (Error (''Could not parse '' @ field @ '': '' @ line))
      | Some d \<Rightarrow>
          (case Atoi d of
             Inl e \<Rightarrow> Inl e
           | Inr v \<Rightarrow> parse_fields line others (set_field field v result)))"

definition ParseInfo :: "string \<Rightarrow> error + Info" where
  "ParseInfo line =
     (if find_first match_notice line \<noteq> None then Inr zero_Info
      else case find_first match_pv line of
        None \<Rightarrow> Inl (Error (''Could not parse pv: '' @ line))
      | Some pv \<Rightarrow>
          (case find_first match_score line of
             None \<Rightarrow> Inl (Error (''Could not parse score: '' @ line))
           | Some (ev, val) \<Rightarrow>
               (case Atoi val of
                  Inl e \<Rightarrow> Inl e
                | Inr v \<Rightarrow>
                    parse_fields line singleValueFields
                      (zero_Info\<lparr>Pv := pv, Score := \<lparr>Eval = ev, Value = v\<rparr>\<rparr>))))"

section \<open>The engine and its two pipes\<close>

text \<open>
  The engine process is seen through its pipes only. \<open>Stdin\<close> is the text written to
  the process so far, one entry for each write. \<open>Stdout\<close> is what the process still
  prints: the texts that the coming calls of \<open>ReadLine\<close> return, in order; when it is
  exhausted \<open>ReadLine\<close> returns the error \<open>EOF\<close>. Both pipes are those that
  \<open>NewEngineWithAllOptions\<close> opens, so neither is nil.
\<close>

record Engine =
  Executable :: string
  Stdin :: "string list"
  Stdout :: "string list"
  EngineDepth :: int
  EnginePonder :: bool
  Param :: "string \<rightharpoonup> string"

definition Put :: "string \<Rightarrow> Engine \<Rightarrow> Engine" where
  "Put command engine = engine\<lparr>Stdin := Stdin engine @ [command @ [CHR 0x0A]]\<rparr>"

text \<open>The loop of \<open>IsReady\<close>: the error returned (\<open>None\<close> is nil) and what is left to read.\<close>

fun read_ready :: "string list \<Rightarrow> error option \<times> string list" where
  "read_ready [] = (Some (Error ''EOF''), [])"
| "read_ready (text # rest) =
     (let line = TrimSpace text in
      if Contains line ''No such option:'' then (Some (Error line), rest)
      else if Contains line ''Unknown command:'' then (Some (Error line), rest)
      else if line = ''readyok'' then (None, rest)
      else read_ready rest)"

definition IsReady :: "Engine \<Rightarrow> error option \<times> Engine" where
  "IsReady engine =
     (let e1 = Put ''isready'' engine;
          (err, out) = read_ready (Stdout e1)
      in (err, e1\<lparr>Stdout := out\<rparr>))"

definition SetOption :: "string \<Rightarrow> string \<Rightarrow> Engine \<Rightarrow> error option \<times> Engine" where
  "SetOption optionName v engine =
     IsReady (Put (''setoption name '' @ optionName @ '' value '' @ v) engine)"

definition NewGame :: "Engine \<Rightarrow> error option \<times> Engine" where
  "NewGame engine = IsReady (Put ''ucinewgame'' engine)"

definition SetPosition :: "string list \<Rightarrow> Engine \<Rightarrow> error option \<times> Engine" where
  "SetPosition moves engine = IsReady (Put (''position startpos moves '' @ Join moves) engine)"

definition SetFENPosition :: "string \<Rightarrow> Engine \<Rightarrow> error option \<times> Engine" where
  "SetFENPosition fen engine = IsReady (Put (''position fen '' @ fen) engine)"

definition Go :: "Engine \<Rightarrow> error option \<times> Engine" where
  "Go engine = IsReady (Put (''go depth '' @ Itoa (EngineDepth engine)) engine)"

text \<open>
  The loop of \<open>BestMove\<close>, with \<open>lastInfo\<close> as its state. \<open>Split\<close> never returns the
  empty list, so \<open>splitText[0]\<close> is its head.
\<close>

fun read_bestmove :: "Info option \<Rightarrow> string list \<Rightarrow> (error + BestMove) \<times> string list" where
  "read_bestmove lastInfo [] = (Inl (Error ''EOF''), [])"
| "read_bestmove lastInfo (text # rest) =
     (let line = TrimSpace text;
          splitText = Split line
      in case (if hd splitText = ''info''
               then (case ParseInfo line of Inl e \<Rightarrow> Inl e | Inr i \<Rightarrow> Inr (Some i))
               else Inr lastInfo) of
           Inl e \<Rightarrow> (Inl e, rest)
         | Inr lastInfo' \<Rightarrow>
             if hd splitText = ''bestmove''
             then (case ParseBestMove line of
                     Inl e \<Rightarrow> (Inl e, rest)
                   | Inr bestMove \<Rightarrow> (Inr (bestMove\<lparr>Info := lastInfo'\<rparr>), rest))
             else read_bestmove lastInfo' rest)"

definition Engine_BestMove :: "Engine \<Rightarrow> (error + BestMove) \<times> Engine" where
  "Engine_BestMove engine =
     (let (_, e1) = Go engine;
          (r, out) = read_bestmove None (Stdout e1)
      in (r, e1\<lparr>Stdout := out\<rparr>))"

section \<open>NewEngineWithAllOptions\<close>

text \<open>
  What the call takes from outside the program: whether the two pipes could be opened,
  what the started process prints, the number that the random source draws, and the order in
  which \<open>range\<close> visits the names of \<open>engine.Param\<close> (Go leaves it open; a name that is
  not a key is passed over).
\<close>

record World =
  StdinPipe_err :: "error option"
  StdoutPipe_err :: "error option"
  Output :: "string list"
  Draw :: int
  Order :: "string list"

definition Intn :: "int \<Rightarrow> int \<Rightarrow> error + int" where
  \<comment> \<open>\<open>rand.Intn(n)\<close> panics if \<open>n <= 0\<close>; otherwise it reduces the number that its
      source has drawn into \<open>[0, n)\<close>\<close>
  "Intn draw n = (if n \<le> 0 then Inl (Panic ''invalid argument to Intn'') else Inr (draw mod n))"

definition baseParam :: "string \<rightharpoonup> string" where
  "baseParam =
     [''Contempt'' \<mapsto> ''0'', ''Threads'' \<mapsto> ''1'', ''Hash'' \<mapsto> ''16'', ''MultiPV'' \<mapsto> ''1'',
      ''Skill Level'' \<mapsto> ''20'', ''Move Overhead'' \<mapsto> ''30'', ''Slow Mover'' \<mapsto> ''80'',
      ''UCI_Chess960'' \<mapsto> ''false'']"

definition randomContempt ::
  "int \<Rightarrow> bool \<Rightarrow> int \<Rightarrow> int \<Rightarrow> (string \<rightharpoonup> string) \<Rightarrow> error + (string \<rightharpoonup> string)" where
  \<comment> \<open>\<open>if random { baseParam["Contempt"] = strconv.Itoa(rand.Intn(randMax-randMin) + randMin) }\<close>\<close>
  "randomContempt draw random randMin randMax bp =
     (if random
      then (case Intn draw (wrap_int (randMax - randMin)) of
              Inl e \<Rightarrow> Inl e
            | Inr r \<Rightarrow> Inr (bp(''Contempt'' \<mapsto> Itoa (wrap_int (r + randMin)))))
      else Inr bp)"

text \<open>The loop that sends every option, in the order of the list of names.\<close>

fun SetOptions :: "(string \<rightharpoonup> string) \<Rightarrow> string list \<Rightarrow> Engine \<Rightarrow> error + Engine" where
  "SetOptions p [] engine = Inr engine"
| "SetOptions p (name # names) engine =
     (case p name of
        None \<Rightarrow> SetOptions p names engine
      | Some v \<Rightarrow>
          (case SetOption name v engine of
             (Some err, e') \<Rightarrow> Inl err
           | (None, e') \<Rightarrow> SetOptions p names e'))"

definition NewEngineWithAllOptions ::
  "World \<Rightarrow> string \<Rightarrow> int \<Rightarrow> bool \<Rightarrow> (string \<rightharpoonup> string) \<Rightarrow> bool \<Rightarrow> int \<Rightarrow> int \<Rightarrow> error + Engine" where
  "NewEngineWithAllOptions w stockfishExecutable depth ponder param random randMin randMax =
     (case StdinPipe_err w of
        Some err \<Rightarrow> Inl err
      | None \<Rightarrow>
          (case StdoutPipe_err w of
             Some err \<Rightarrow> Inl err
           | None \<Rightarrow>
               (let e0 = \<lparr>Executable = stockfishExecutable, Stdin = [], Stdout = Output w,
                          EngineDepth = depth, EnginePonder = ponder, Param = param\<rparr>;
                    e1 = Put ''uci'' e0;
                    e2 = (if \<not> ponder then snd (SetOption ''Ponder'' ''false'' e1) else e1)
                in case randomContempt (Draw w) random randMin randMax baseParam of
                     Inl e \<Rightarrow> Inl e
                   | Inr bp \<Rightarrow>
                       (let e3 = e2\<lparr>Param := bp ++ param\<rparr>
                        in SetOptions (Param e3) (Order w) e3))))"

section \<open>The match\<close>

text \<open>
  A \<open>*Engine\<close> is an address or nil (\<open>None\<close>); the engines live in a store, so that
  the two sides of a match may be one and the same engine.
\<close>

type_synonym addr = nat

type_synonym store = "addr \<Rightarrow> Engine"

record Match =
  White :: string
  WhiteEngine :: "addr option"
  Black :: string
  BlackEngine :: "addr option"
  Moves :: "string list"
  Winner :: string
  WinnerEngine :: "addr option"

definition MaxMoves :: nat where
  "MaxMoves = 500"

definition nil_dereference :: error where
  "nil_dereference = Panic ''runtime error: invalid memory address or nil pointer dereference''"

definition active_side :: "Match \<Rightarrow> addr option \<times> string \<times> addr option \<times> string" where
  \<comment> \<open>\<open>(activeEngine, activeEngineName, inactiveEngine, inactiveEngineName)\<close> below the ceiling\<close>
  "active_side m =
     (if length (Moves m) mod 2 \<noteq> 0
      then (BlackEngine m, Black m, WhiteEngine m, White m)
      else (WhiteEngine m, White m, BlackEngine m, Black m))"

definition Match_Move :: "Match \<Rightarrow> store \<Rightarrow> (error + bool) \<times> Match \<times> store" where
  "Match_Move m h =
     (if length (Moves m) = MaxMoves then (Inr False, m, h)
      else
        (let (activeEngine, activeEngineName, inactiveEngine, inactiveEngineName) = active_side m
         in case activeEngine of
              None \<Rightarrow> (Inl nil_dereference, m, h)
            | Some a \<Rightarrow>
                (let (_, e1) = SetPosition (Moves m) (h a);
                     (r, e2) = Engine_BestMove e1;
                     h' = h(a := e2)
                 in case r of
                      Inl err \<Rightarrow> (Inl err, m, h')
                    | Inr bestMove \<Rightarrow>
                        (let m1 = m\<lparr>Moves := Moves m @ [Move bestMove]\<rparr>
                         in case Info bestMove of
                              None \<Rightarrow> (Inl nil_dereference, m1, h')
                            | Some info \<Rightarrow>
                                if Eval (Score info) = ''mate''
                                then (let matenum = Value (Score info)
                                      in if matenum > 0
                                         then (Inr False,
                                               m1\<lparr>WinnerEngine := activeEngine,
                                                  Winner := activeEngineName\<rparr>, h')
                                         else if matenum < 0
                                         then (Inr False,
                                               m1\<lparr>WinnerEngine := inactiveEngine,
                                                  Winner := inactiveEngineName\<rparr>, h')
                                         else (Inr False, m1, h'))
                                else if Ponder bestMove \<noteq> ''(none)'' then (Inr True, m1, h')
                                else (Inr False, m1, h')))))"

text \<open>
  \<open>Run\<close> calls \<open>Move\<close> until it reports an error or that no move was made. Every move
  that was made has read the \<open>bestmove\<close> line of its engine, so with the engines'
  remaining output as the measure the loop ends.
\<close>

definition unread :: "Match \<Rightarrow> store \<Rightarrow> nat" where
  "unread m h =
     (case WhiteEngine m of None \<Rightarrow> 0 | Some a \<Rightarrow> length (Stdout (h a)))
     + (case BlackEngine m of None \<Rightarrow> 0 | Some a \<Rightarrow> length (Stdout (h a)))"

function Run :: "Match \<Rightarrow> store \<Rightarrow> (error + string) \<times> Match \<times> store" where
  "Run m h =
     (case Match_Move m h of
        (Inl err, m', h') \<Rightarrow> (Inl err, m', h')
      | (Inr move, m', h') \<Rightarrow> if \<not> move then (Inr (Winner m'), m', h') else Run m' h')"
  by pat_completeness auto
termination
proof (relation "measure (\<lambda>(m, h). unread m h)")
  show "wf (measure (\<lambda>(m, h). unread m h))" by simp
next
  fix m :: Match and h :: store and x1 x2 :: "error + bool" and move :: bool
    and y :: "Match \<times> store" and m' :: Match and h' :: store
  assume mv: "(x1, y) = Match_Move m h" "(m', h') = y" "x1 = Inr move" "\<not> \<not> move"
  have ready: "length (snd (read_ready xs)) \<le> length xs" for xs
    by (induction xs) (auto simp: Let_def)
  have isready: "length (Stdout (snd (IsReady e))) \<le> length (Stdout e)" for e
    using ready [of "Stdout e"]
    by (simp add: IsReady_def Put_def Let_def case_prod_beta)
  have best: "fst (read_bestmove li xs) = Inr b \<Longrightarrow> length (snd (read_bestmove li xs)) < length xs"
    for li xs b
    by (induction xs arbitrary: li)
      (auto simp: Let_def split: sum.splits if_splits intro: less_SucI)
  have bestmove: "fst (Engine_BestMove e) = Inr b \<Longrightarrow>
      length (Stdout (snd (Engine_BestMove e))) < length (Stdout e)" for e b
  proof -
    assume a: "fst (Engine_BestMove e) = Inr b"
    obtain g e1 where g: "Go e = (g, e1)" by (cases "Go e")
    have "length (Stdout e1) \<le> length (Stdout e)"
      using isready [of "Put (''go depth '' @ Itoa (EngineDepth e)) e"] g
      by (simp add: Go_def Put_def)
    moreover have "length (snd (read_bestmove None (Stdout e1))) < length (Stdout e1)"
      using a g best [of None "Stdout e1" b]
      by (simp add: Engine_BestMove_def case_prod_beta)
    ultimately show ?thesis
      using g by (simp add: Engine_BestMove_def case_prod_beta)
  qed
  have setpos: "length (Stdout (snd (SetPosition ms e))) \<le> length (Stdout e)" for ms e
    using isready [of "Put (''position startpos moves '' @ Join ms) e"]
    by (simp add: SetPosition_def Put_def)
  from mv have mm: "Match_Move m h = (Inr True, m', h')" by (cases move) auto
  then have below: "length (Moves m) \<noteq> MaxMoves" by (auto simp: Match_Move_def)
  obtain a where act: "fst (active_side m) = Some a"
    using mm below by (auto simp: Match_Move_def split: prod.splits option.splits)
  define e1 where "e1 = snd (SetPosition (Moves m) (h a))"
  define e2 where "e2 = snd (Engine_BestMove e1)"
  have h': "h' = h(a := e2)" and ok: "\<exists>b. fst (Engine_BestMove e1) = Inr b"
    and engines: "WhiteEngine m' = WhiteEngine m" "BlackEngine m' = BlackEngine m"
    using mm below act unfolding Match_Move_def e1_def e2_def
    by (auto simp: Let_def split: prod.splits option.splits sum.splits if_splits)
  have less: "length (Stdout e2) < length (Stdout (h a))"
    using ok bestmove [of e1] setpos [of "Moves m" "h a"] unfolding e1_def e2_def by auto
  have "a \<in> {x. WhiteEngine m = Some x} \<union> {x. BlackEngine m = Some x}"
    using act by (auto simp: active_side_def split: if_splits)
  then have "unread m' h' < unread m h"
    using less engines h' by (auto simp: unread_def split: option.splits)
  then show "((m', h'), (m, h)) \<in> measure (\<lambda>(m, h). unread m h)" by simp
qed


declare Run.simps [simp del]

text \<open>
  \<open>moves_made n\<close> is the state after \<open>n\<close> calls of \<open>Move\<close> that each made a move
  (returned \<open>true\<close>), if the first \<open>n\<close> calls do so.
\<close>

fun moves_made :: "nat \<Rightarrow> Match \<Rightarrow> store \<Rightarrow> (Match \<times> store) option" where
  "moves_made 0 m h = Some (m, h)"
| "moves_made (Suc n) m h =
     (case Match_Move m h of
        (Inr True, m', h') \<Rightarrow> moves_made n m' h'
      | _ \<Rightarrow> None)"

section \<open>A sample engine and match\<close>

definition engine0 :: "string list \<Rightarrow> Engine" where
  "engine0 out = \<lparr>Executable = ''stockfish'', Stdin = [], Stdout = out, EngineDepth = 2,
                   EnginePonder = False, Param = Map.empty\<rparr>"

definition match0 :: "string list \<Rightarrow> Match" where
  "match0 ms = \<lparr>White = ''e1'', WhiteEngine = Some 0, Black = ''e2'', BlackEngine = Some 1,
                 Moves = ms, Winner = [], WinnerEngine = None\<rparr>"

definition mate_script :: "string list" where
  "mate_script =
     [''readyok'', ''readyok'',
      ''info depth 10 seldepth 12 multipv 1 score mate 5 nodes 2378 nps 1189000 tbhits 0 time 2 pv h3g3 g6f7'',
      ''bestmove h3g3 ponder g6f7'']"

definition mate_info :: Info where
  "mate_info = \<lparr>Depth = 10, Seldepth = 12, Multipv = 1, Score = \<lparr>Eval = ''mate'', Value = 5\<rparr>,
                 Nodes = 2378, Nps = 1189000, Tbhits = 0, Time = 2, Pv = ''h3g3 g6f7''\<rparr>"

definition quiet_script :: "string list" where
  "quiet_script =
     [''readyok'', ''readyok'',
      ''info depth 2 seldepth 3 multipv 1 score cp -656 nodes 43 nps 43000 tbhits 0 time 1 pv g7g6 h3g3'',
      ''bestmove g7g6 ponder h3g3'']"

definition quiet_info :: Info where
  "quiet_info = \<lparr>Depth = 2, Seldepth = 3, Multipv = 1, Score = \<lparr>Eval = ''cp'', Value = - 656\<rparr>,
                  Nodes = 43, Nps = 43000, Tbhits = 0, Time = 1, Pv = ''g7g6 h3g3''\<rparr>"

text \<open>
  A world in which both pipes open and the process answers nine readiness probes; the
  argument is the number drawn.
\<close>

definition world0 :: "int \<Rightarrow> World" where
  "world0 d = \<lparr>StdinPipe_err = None, StdoutPipe_err = None,
                Output = replicate 9 ''readyok'', Draw = d,
                Order = [''Contempt'', ''Threads'', ''Hash'', ''MultiPV'', ''Skill Level'',
                         ''Move Overhead'', ''Slow Mover'', ''UCI_Chess960'']\<rparr>"

text \<open>The \<open>Contempt\<close> entry of the engine a call returned.\<close>

definition Contempt_of :: "error + Engine \<Rightarrow> error + string option" where
  "Contempt_of r = map_sum id (\<lambda>e. Param e ''Contempt'') r"

section \<open>Writing an info line\<close>








section \<open>Reading the text of a line\<close>




section \<open>Searching and matching: general facts\<close>

lemma find_first_here: "m s = Some r \<Longrightarrow> find_first m s = Some r"
  by (cases s) auto

lemma find_first_later: "m s \<noteq> None \<Longrightarrow> find_first m (pre @ s) \<noteq> None"
  by (induction pre) (auto simp: find_first_here split: option.splits)

lemma strip_prefix_append: "strip_prefix p (p @ s) = Some s"
  by (induction p) auto


lemma takeWhile_run: "\<forall>x\<in>set a. P x \<Longrightarrow> \<not> P c \<Longrightarrow> takeWhile P (a @ c # r) = a"
  by (induction a) auto

lemma dropWhile_run: "\<forall>x\<in>set a. P x \<Longrightarrow> \<not> P c \<Longrightarrow> dropWhile P (a @ c # r) = c # r"
  by (induction a) auto

section \<open>Properties of ParseBestMove\<close>

lemma Split_not_Nil: "Split s \<noteq> []"
  by (induction s) (auto split: list.splits)

lemma Split_no_space: "CHR '' '' \<notin> set s \<Longrightarrow> Split s = [s]"
  by (induction s) auto

lemma Split_append_space:
  "CHR '' '' \<notin> set a \<Longrightarrow> Split (a @ CHR '' '' # b) = a # Split b"
  by (induction a) auto

lemma ParseBestMove_two_tokens:
  assumes "CHR '' '' \<notin> set X"
  shows "ParseBestMove (''bestmove '' @ X) = Inr \<lparr>Move = X, Ponder = [], Info = None\<rparr>"
proof -
  have "Split (''bestmove '' @ X) = [''bestmove'', X]"
    using Split_append_space [of "''bestmove''" X] assms by (simp add: Split_no_space)
  then show ?thesis by (simp add: ParseBestMove_def index_def)
qed

lemma ParseBestMove_four_tokens:
  assumes "CHR '' '' \<notin> set X" and "CHR '' '' \<notin> set Y"
  shows "ParseBestMove (''bestmove '' @ X @ '' ponder '' @ Y)
           = Inr \<lparr>Move = X, Ponder = Y, Info = None\<rparr>"
proof -
  have "Split (''ponder '' @ Y) = [''ponder'', Y]"
    using Split_append_space [of "''ponder''" Y] assms by (simp add: Split_no_space)
  then have "Split (X @ '' ponder '' @ Y) = [X, ''ponder'', Y]"
    using Split_append_space [of X "''ponder '' @ Y"] assms by simp
  then have "Split (''bestmove '' @ X @ '' ponder '' @ Y) = [''bestmove'', X, ''ponder'', Y]"
    using Split_append_space [of "''bestmove''" "X @ '' ponder '' @ Y"] by simp
  then show ?thesis by (simp add: ParseBestMove_def index_def)
qed

text \<open>
  C5. A line with fewer than two tokens should be answered with a returned error. The
  function never returns an error: on the one-token line \<open>bestmove\<close> the read of
  \<open>splitText[1]\<close> is out of range and the call panics.
\<close>

theorem ParseBestMove_one_token_panics:
  "ParseBestMove ''bestmove'' =
     Inl (Panic ''runtime error: index out of range [1] with length 1'')"
  by (simp add: ParseBestMove_def index_def Itoa_def show_digits.simps digit_char_def)

text \<open>
  C6. A line without a fourth token should give an absent ponder move. The guard
  compares the number of tokens with 3 where the read is at index 3, so the
  three-token line \<open>bestmove e2e4 ponder\<close> panics.
\<close>

theorem ParseBestMove_three_tokens_panics:
  "ParseBestMove ''bestmove e2e4 ponder'' =
     Inl (Panic ''runtime error: index out of range [3] with length 3'')"
  by (simp add: ParseBestMove_def index_def Itoa_def show_digits.simps digit_char_def)

section \<open>ParseInfo on the notice line\<close>

lemma match_notice_shape:
  assumes "a \<noteq> []" "CHR '' '' \<notin> set a" "b \<noteq> []" "CHR '' '' \<notin> set b"
  shows "match_notice (''info string '' @ a @ '' evaluation using '' @ b @ '' enabled'' @ post) = Some ()"
proof -
  have a: "\<forall>x\<in>set a. not_space x" and b: "\<forall>x\<in>set b. not_space x"
    using assms by (auto simp: not_space_def)
  have sp: "\<not> not_space CHR '' ''" by (simp add: not_space_def)
  have 1: "strip_prefix ''info string '' (''info string '' @ a @ '' evaluation using '' @ b @ '' enabled'' @ post)
        = Some (a @ '' evaluation using '' @ b @ '' enabled'' @ post)"
    by (rule strip_prefix_append)
  have 2: "takeWhile not_space (a @ '' evaluation using '' @ b @ '' enabled'' @ post) = a"
    "dropWhile not_space (a @ '' evaluation using '' @ b @ '' enabled'' @ post) = '' evaluation using '' @ b @ '' enabled'' @ post"
    using takeWhile_run [OF a sp] dropWhile_run [OF a sp] by simp_all
  have 3: "strip_prefix '' evaluation using '' ('' evaluation using '' @ b @ '' enabled'' @ post) = Some (b @ '' enabled'' @ post)"
    by (rule strip_prefix_append)
  have 4: "takeWhile not_space (b @ '' enabled'' @ post) = b"
    "dropWhile not_space (b @ '' enabled'' @ post) = '' enabled'' @ post"
    using takeWhile_run [OF b sp] dropWhile_run [OF b sp] by simp_all
  have 5: "strip_prefix '' enabled'' ('' enabled'' @ post) = Some post"
    by (rule strip_prefix_append)
  show ?thesis
    unfolding match_notice_def 1 option.case 2 3 4 5 using assms by simp
qed

text \<open>
  C7, as stated, fails for a free-form notice outside the one shape that the code
  tests for: ParseInfo goes on to look for the pv field and returns an error.
\<close>

theorem ParseInfo_notice_counterexample:
  "ParseInfo ''info string classical evaluation enabled''
     = Inl (Error ''Could not parse pv: info string classical evaluation enabled'')"
  by code_simp

text \<open>
  C7, amended. A line that contains the notice shape the code tests for, that is the
  text \<open>info string\<close>, a word without spaces, \<open>evaluation using\<close>, a second word
  without spaces and \<open>enabled\<close>, is answered with the zero \<open>Info\<close> and no error,
  whatever stands before and after it.
\<close>

theorem ParseInfo_notice:
  assumes "a \<noteq> []" "CHR '' '' \<notin> set a" "b \<noteq> []" "CHR '' '' \<notin> set b"
  shows "ParseInfo (pre @ ''info string '' @ a @ '' evaluation using '' @ b @ '' enabled'' @ post)
           = Inr zero_Info"
proof -
  have "match_notice (''info string '' @ a @ '' evaluation using '' @ b @ '' enabled'' @ post) \<noteq> None"
    using match_notice_shape [OF assms] by simp
  then have "find_first match_notice
       (pre @ ''info string '' @ a @ '' evaluation using '' @ b @ '' enabled'' @ post) \<noteq> None"
    by (rule find_first_later)
  then show ?thesis by (simp add: ParseInfo_def)
qed

theorem ParseInfo_notice_witness:
  "ParseInfo ''info string NNUE evaluation using nn-82215d0fd0df.nnue enabled'' = Inr zero_Info"
  using ParseInfo_notice [of "''NNUE''" "''nn-82215d0fd0df.nnue''" "[]" "[]"] by simp


section \<open>Decimal texts\<close>









section \<open>Searching a line of words\<close>


















section \<open>The words of a written line\<close>



























section \<open>The round trip of ParseInfo\<close>









section \<open>A missing field\<close>


















section \<open>One call of Move\<close>

lemma IsReady_Stdin: "Stdin (snd (IsReady e)) = Stdin e @ [''isready'' @ [CHR 0x0A]]"
  by (simp add: IsReady_def Put_def Let_def case_prod_beta)

lemma IsReady_EngineDepth: "EngineDepth (snd (IsReady e)) = EngineDepth e"
  by (simp add: IsReady_def Put_def Let_def case_prod_beta)

lemma SetPosition_Stdin:
  "Stdin (snd (SetPosition ms e)) =
     Stdin e @ [''position startpos moves '' @ Join ms @ [CHR 0x0A], ''isready'' @ [CHR 0x0A]]"
  by (simp add: SetPosition_def IsReady_Stdin) (simp add: Put_def)

lemma SetPosition_EngineDepth: "EngineDepth (snd (SetPosition ms e)) = EngineDepth e"
  by (simp add: SetPosition_def IsReady_EngineDepth) (simp add: Put_def)

lemma Engine_BestMove_Stdin:
  "Stdin (snd (Engine_BestMove e)) =
     Stdin e @ [''go depth '' @ Itoa (EngineDepth e) @ [CHR 0x0A], ''isready'' @ [CHR 0x0A]]"
  by (simp add: Engine_BestMove_def Go_def case_prod_beta IsReady_Stdin) (simp add: Put_def)



lemma active_side_fst:
  "fst (active_side m) = (if even (length (Moves m)) then WhiteEngine m else BlackEngine m)"
  by (simp add: active_side_def even_iff_mod_2_eq_zero)

lemma active_side_names:
  "fst (snd (active_side m)) = (if even (length (Moves m)) then White m else Black m)"
  "fst (snd (snd (active_side m))) = (if even (length (Moves m)) then BlackEngine m else WhiteEngine m)"
  "snd (snd (snd (active_side m))) = (if even (length (Moves m)) then Black m else White m)"
  by (simp_all add: active_side_def even_iff_mod_2_eq_zero)

lemma Match_Move_nil:
  assumes "length (Moves m) \<noteq> MaxMoves" and "fst (active_side m) = None"
  shows "Match_Move m h = (Inl nil_dereference, m, h)"
  using assms by (simp add: Match_Move_def case_prod_beta)

lemma Match_Move_store:
  assumes "length (Moves m) \<noteq> MaxMoves" and "fst (active_side m) = Some a"
  shows "snd (snd (Match_Move m h))
           = h(a := snd (Engine_BestMove (snd (SetPosition (Moves m) (h a)))))"
proof (cases "fst (Engine_BestMove (snd (SetPosition (Moves m) (h a))))")
  case (Inl err)
  then show ?thesis using assms by (simp add: Match_Move_def case_prod_beta)
next
  case (Inr bestMove)
  show ?thesis
  proof (cases "Info bestMove")
    case None
    then show ?thesis using assms Inr by (simp add: Match_Move_def case_prod_beta Let_def)
  next
    case (Some info)
    then show ?thesis using assms Inr by (simp add: Match_Move_def case_prod_beta Let_def)
  qed
qed

lemma Match_Move_info:
  assumes "length (Moves m) \<noteq> MaxMoves" and "fst (active_side m) = Some a"
    and "fst (Engine_BestMove (snd (SetPosition (Moves m) (h a)))) = Inr bestMove"
    and "Info bestMove = Some info"
  shows "fst (Match_Move m h) =
           Inr (Eval (Score info) \<noteq> ''mate'' \<and> Ponder bestMove \<noteq> ''(none)'')"
    and "fst (snd (Match_Move m h)) =
          (if Eval (Score info) = ''mate''
           then (if Value (Score info) > 0
                 then m\<lparr>Moves := Moves m @ [Move bestMove], WinnerEngine := Some a,
                        Winner := fst (snd (active_side m))\<rparr>
                 else if Value (Score info) < 0
                 then m\<lparr>Moves := Moves m @ [Move bestMove],
                        WinnerEngine := fst (snd (snd (active_side m))),
                        Winner := snd (snd (snd (active_side m)))\<rparr>
                 else m\<lparr>Moves := Moves m @ [Move bestMove]\<rparr>)
           else m\<lparr>Moves := Moves m @ [Move bestMove]\<rparr>)"
  using assms by (simp_all add: Match_Move_def case_prod_beta Let_def)

lemma Match_Move_no_info:
  assumes "length (Moves m) \<noteq> MaxMoves" and "fst (active_side m) = Some a"
    and "fst (Engine_BestMove (snd (SetPosition (Moves m) (h a)))) = Inr bestMove"
    and "Info bestMove = None"
  shows "fst (Match_Move m h) = Inl nil_dereference"
  using assms by (simp add: Match_Move_def case_prod_beta Let_def)

lemma Match_Move_error:
  assumes "length (Moves m) \<noteq> MaxMoves" and "fst (active_side m) = Some a"
    and "fst (Engine_BestMove (snd (SetPosition (Moves m) (h a)))) = Inl err"
  shows "fst (Match_Move m h) = Inl err"
  using assms by (simp add: Match_Move_def case_prod_beta Let_def)

lemma mate_script_BestMove:
  "fst (Engine_BestMove (snd (SetPosition [] (engine0 mate_script))))
     = Inr \<lparr>Move = ''h3g3'', Ponder = ''g6f7'', Info = Some mate_info\<rparr>"
  by code_simp

lemma SetPosition_Stdout: "Stdout (snd (SetPosition ms e)) = snd (read_ready (Stdout e))"
  by (simp add: SetPosition_def IsReady_def Put_def Let_def case_prod_beta)

lemma Engine_BestMove_fst:
  "fst (Engine_BestMove e) = fst (read_bestmove None (snd (read_ready (Stdout e))))"
  by (simp add: Engine_BestMove_def Go_def IsReady_def Put_def Let_def case_prod_beta)

lemma quiet_script_BestMove:
  "fst (read_bestmove None (snd (read_ready (snd (read_ready quiet_script)))))
     = Inr \<lparr>Move = ''g7g6'', Ponder = ''h3g3'', Info = Some quiet_info\<rparr>"
  by code_simp

text \<open>
  C3. When the engine of the side to move reports a score of kind \<open>mate\<close>, the call
  appends the move and returns \<open>false\<close>; a positive value records the side to move as
  winner, a negative value records the other side, and the value zero leaves the winner
  as it was. The side to move is White on an even number of moves and Black on an odd one.
\<close>

theorem Move_mate:
  assumes "length (Moves m) \<noteq> MaxMoves"
    and "(if even (length (Moves m)) then WhiteEngine m else BlackEngine m) = Some a"
    and "fst (Engine_BestMove (snd (SetPosition (Moves m) (h a)))) = Inr bestMove"
    and "Info bestMove = Some info" and "Eval (Score info) = ''mate''"
  shows "\<exists>m' h'. Match_Move m h = (Inr False, m', h') \<and>
           Moves m' = Moves m @ [Move bestMove] \<and>
           (0 < Value (Score info) \<longrightarrow>
              Winner m' = (if even (length (Moves m)) then White m else Black m) \<and>
              WinnerEngine m' = Some a) \<and>
           (Value (Score info) < 0 \<longrightarrow>
              Winner m' = (if even (length (Moves m)) then Black m else White m) \<and>
              WinnerEngine m' = (if even (length (Moves m)) then BlackEngine m else WhiteEngine m)) \<and>
           (Value (Score info) = 0 \<longrightarrow>
              Winner m' = Winner m \<and> WinnerEngine m' = WinnerEngine m)"
proof -
  have act: "fst (active_side m) = Some a"
    using assms(2) by (simp add: active_side_fst)
  obtain r m' h' where res: "Match_Move m h = (r, m', h')"
    by (cases "Match_Move m h") auto
  have r: "r = Inr False"
    using Match_Move_info(1) [of m a h bestMove info, OF assms(1) act assms(3) assms(4), unfolded res] assms(5) by simp
  have m': "m' = (if Value (Score info) > 0
                 then m\<lparr>Moves := Moves m @ [Move bestMove], WinnerEngine := Some a,
                        Winner := fst (snd (active_side m))\<rparr>
                 else if Value (Score info) < 0
                 then m\<lparr>Moves := Moves m @ [Move bestMove],
                        WinnerEngine := fst (snd (snd (active_side m))),
                        Winner := snd (snd (snd (active_side m)))\<rparr>
                 else m\<lparr>Moves := Moves m @ [Move bestMove]\<rparr>)"
    using Match_Move_info(2) [of m a h bestMove info, OF assms(1) act assms(3) assms(4), unfolded res] assms(5) by simp
  show ?thesis
    unfolding res r using m' by (simp add: active_side_names)
qed

theorem Move_mate_witness:
  "\<exists>m' h'. Match_Move (match0 []) (\<lambda>a. engine0 mate_script) = (Inr False, m', h') \<and>
     Moves m' = [''h3g3''] \<and> Winner m' = ''e1'' \<and> WinnerEngine m' = Some 0"
  using Move_mate [of "match0 []" 0 "\<lambda>a. engine0 mate_script"
      "\<lparr>Move = ''h3g3'', Ponder = ''g6f7'', Info = Some mate_info\<rparr>" mate_info]
    mate_script_BestMove
  by (simp add: match0_def MaxMoves_def mate_info_def)

text \<open>
  C4. Below the ceiling the parity of the number of moves alone picks the active engine:
  White on an even number, Black on an odd one. No engine at another address changes in
  any way, and the active engine has received exactly the commands of \<open>SetPosition\<close>
  and of \<open>BestMove\<close>.
\<close>

theorem Move_active_only:
  assumes "length (Moves m) \<noteq> MaxMoves" and "Match_Move m h = (r, m', h')"
  shows "(\<forall>b. Some b \<noteq> (if even (length (Moves m)) then WhiteEngine m else BlackEngine m)
              \<longrightarrow> h' b = h b) \<and>
         (\<forall>a. (if even (length (Moves m)) then WhiteEngine m else BlackEngine m) = Some a \<longrightarrow>
              Stdin (h' a) =
                Stdin (h a) @ [''position startpos moves '' @ Join (Moves m) @ [CHR 0x0A],
                               ''isready'' @ [CHR 0x0A],
                               ''go depth '' @ Itoa (EngineDepth (h a)) @ [CHR 0x0A],
                               ''isready'' @ [CHR 0x0A]])"
proof (cases "fst (active_side m)")
  case None
  then show ?thesis
    using assms Match_Move_nil [of m h] by (simp add: active_side_fst)
next
  case (Some a)
  have "h' = h(a := snd (Engine_BestMove (snd (SetPosition (Moves m) (h a)))))"
    using Match_Move_store [OF assms(1) Some, of h] assms(2) by simp
  then show ?thesis
    using Some
    by (simp add: active_side_fst Engine_BestMove_Stdin SetPosition_Stdin SetPosition_EngineDepth)
qed

theorem Move_active_only_witness:
  "Stdin (snd (snd (Match_Move (match0 []) (\<lambda>a. engine0 mate_script))) 0) =
     [''position startpos moves '' @ [CHR 0x0A], ''isready'' @ [CHR 0x0A],
      ''go depth 2'' @ [CHR 0x0A], ''isready'' @ [CHR 0x0A]] \<and>
   snd (snd (Match_Move (match0 []) (\<lambda>a. engine0 mate_script))) 1 = engine0 mate_script"
  using Move_active_only [of "match0 []" "\<lambda>a. engine0 mate_script"
      "fst (Match_Move (match0 []) (\<lambda>a. engine0 mate_script))"
      "fst (snd (Match_Move (match0 []) (\<lambda>a. engine0 mate_script)))"
      "snd (snd (Match_Move (match0 []) (\<lambda>a. engine0 mate_script)))"]
  by (simp add: match0_def MaxMoves_def engine0_def Itoa_def show_digits.simps digit_char_def)


section \<open>The move ceiling\<close>

lemma Run_at_ceiling:
  "length (Moves m) = MaxMoves \<Longrightarrow> Run m h = (Inr (Winner m), m, h)"
  by (simp add: Run.simps Match_Move_def)

lemma Run_after_move:
  "Match_Move m h = (Inr True, m', h') \<Longrightarrow> Run m h = Run m' h'"
  by (simp add: Run.simps [of m h])

lemma Match_Move_continues_Winner:
  assumes "Match_Move m h = (Inr True, m', h')"
  shows "Winner m' = Winner m"
proof -
  have below: "length (Moves m) \<noteq> MaxMoves"
    using assms by (auto simp: Match_Move_def)
  show ?thesis
  proof (cases "fst (active_side m)")
    case None
    then show ?thesis using Match_Move_nil [OF below None, of h] assms by simp
  next
    case (Some a)
    show ?thesis
    proof (cases "fst (Engine_BestMove (snd (SetPosition (Moves m) (h a))))")
      case (Inl err)
      then show ?thesis using Match_Move_error [of m a h err, OF below Some Inl] assms by simp
    next
      case (Inr bestMove)
      show ?thesis
      proof (cases "Info bestMove")
        case None
        then show ?thesis using Match_Move_no_info [of m a h bestMove, OF below \<open>fst (active_side m) = Some a\<close> Inr None] assms by simp
      next
        case (Some info)
        from Match_Move_info [of m a h bestMove info, OF below \<open>fst (active_side m) = Some a\<close> Inr Some] assms
        show ?thesis by (auto split: if_splits)
      qed
    qed
  qed
qed

lemma moves_made_Run:
  "moves_made n m h = Some (m', h') \<Longrightarrow> Run m h = Run m' h' \<and> Winner m' = Winner m"
proof (induction n arbitrary: m h)
  case 0
  then show ?case by simp
next
  case (Suc n)
  then obtain m1 h1 where step: "Match_Move m h = (Inr True, m1, h1)"
    and rest: "moves_made n m1 h1 = Some (m', h')"
    by (auto split: prod.splits sum.splits bool.splits)
  show ?case
    using Suc.IH [OF rest] Run_after_move [OF step] Match_Move_continues_Winner [OF step]
    by simp
qed

text \<open>
  C8. With \<open>MaxMoves\<close> moves in the history, \<open>Move\<close> returns \<open>false\<close> and leaves the
  match and every engine as they are. A run that starts without a winner and whose
  calls of \<open>Move\<close> all make a move until the history has \<open>MaxMoves\<close> moves (a mate score
  would have ended it before) ends there, returning the empty winner.
\<close>

theorem Move_at_ceiling:
  "(length (Moves m) = MaxMoves \<longrightarrow> Match_Move m h = (Inr False, m, h)) \<and>
   (moves_made n m h = Some (m', h') \<and> length (Moves m') = MaxMoves \<and> Winner m = []
      \<longrightarrow> Run m h = (Inr [], m', h') \<and> Winner m' = [])"
  using moves_made_Run [of n m h m' h'] Run_at_ceiling [of m' h']
  by (auto simp: Match_Move_def)

theorem Move_at_ceiling_witness:
  "Run (match0 (replicate 499 ''e2e4'')) (\<lambda>a. engine0 quiet_script)
     = (Inr [], match0 (replicate 499 ''e2e4'' @ [''g7g6'']),
        (\<lambda>a. engine0 quiet_script)
          (1 := snd (Engine_BestMove
                      (snd (SetPosition (replicate 499 ''e2e4'') (engine0 quiet_script))))))"
proof -
  let ?m = "match0 (replicate 499 ''e2e4'')" and ?h = "\<lambda>a::addr. engine0 quiet_script"
  let ?m' = "match0 (replicate 499 ''e2e4'' @ [''g7g6''])"
  let ?h' = "?h(1 := snd (Engine_BestMove (snd (SetPosition (replicate 499 ''e2e4'') (engine0 quiet_script)))))"
  have below: "length (Moves ?m) \<noteq> MaxMoves" by (simp add: match0_def MaxMoves_def)
  have act: "fst (active_side ?m) = Some 1" by (simp add: active_side_def match0_def)
  have bm: "fst (Engine_BestMove (snd (SetPosition (Moves ?m) (?h 1))))
     = Inr \<lparr>Move = ''g7g6'', Ponder = ''h3g3'', Info = Some quiet_info\<rparr>"
    using quiet_script_BestMove
    by (simp add: Engine_BestMove_fst SetPosition_Stdout) (simp add: engine0_def)
  have "Match_Move ?m ?h = (Inr True, ?m', ?h')"
    using Match_Move_info [of ?m 1 ?h _ quiet_info, OF below act bm]
      Match_Move_store [of ?m 1 ?h, OF below act]
    by (simp add: prod_eq_iff quiet_info_def) (simp add: match0_def)
  then have "moves_made 1 ?m ?h = Some (?m', ?h')" by simp
  then show ?thesis
    using Move_at_ceiling [of ?m ?h 1 ?m' ?h']
    by (simp add: match0_def MaxMoves_def)
qed


section \<open>The random contempt of NewEngineWithAllOptions\<close>

lemma wrap_int_id: "MinInt \<le> x \<Longrightarrow> x \<le> MaxInt \<Longrightarrow> wrap_int x = x"
  by (simp add: wrap_int_def MinInt_def MaxInt_def)

lemma IsReady_Param: "Param (snd (IsReady e)) = Param e"
  by (simp add: IsReady_def Put_def Let_def case_prod_beta)

lemma SetOption_Param: "Param (snd (SetOption n v e)) = Param e"
  by (simp add: SetOption_def IsReady_Param) (simp add: Put_def)

lemma SetOptions_Param: "SetOptions p ns e = Inr e' \<Longrightarrow> Param e' = Param e"
proof (induction ns arbitrary: e)
  case Nil
  then show ?case by simp
next
  case (Cons n ns)
  show ?case
  proof (cases "p n")
    case None
    then show ?thesis using Cons by simp
  next
    case (Some v)
    obtain r e1 where so: "SetOption n v e = (r, e1)" by (cases "SetOption n v e")
    then have "Param e1 = Param e" using SetOption_Param [of n v e] by simp
    then show ?thesis
      using Cons Some so by (cases r) auto
  qed
qed

lemma NewEngine_Param:
  assumes "NewEngineWithAllOptions w exe depth ponder param random randMin randMax = Inr e"
    and "randomContempt (Draw w) random randMin randMax baseParam = Inr bp"
  shows "Param e = bp ++ param"
  using assms SetOptions_Param
  by (auto simp: NewEngineWithAllOptions_def Let_def split: option.splits)

lemma world0_returns:
  "case NewEngineWithAllOptions (world0 3) ''stockfish'' 2 True Map.empty True (- 10) 10 of
     Inr e \<Rightarrow> Stdout e = [''readyok''] | Inl err \<Rightarrow> False"
  by code_simp

text \<open>
  C9, as stated, fails where the subtraction \<open>randMax - randMin\<close> overflows \<open>int\<close>: the
  difference wraps to a negative number and \<open>rand.Intn\<close> panics, although
  \<open>randMax > randMin\<close>.
\<close>

theorem random_Contempt_overflow:
  "NewEngineWithAllOptions (world0 0) ''stockfish'' 2 True Map.empty True (- 1) 9223372036854775807
     = Inl (Panic ''invalid argument to Intn'')"
  by (simp add: NewEngineWithAllOptions_def randomContempt_def Intn_def Let_def world0_def
        wrap_int_def)

text \<open>
  C9, amended. With \<open>random\<close> set, \<open>randMin < randMax\<close> and a difference
  \<open>randMax - randMin\<close> that \<open>int\<close> can hold, whatever number the random source draws,
  the \<open>Contempt\<close> entry of the base configuration becomes the decimal text of an
  integer \<open>v\<close> with \<open>randMin \<le> v < randMax\<close>; and in the engine that the call returns
  the entry is the caller's \<open>Contempt\<close> option if there is one, and that text otherwise.
\<close>

theorem random_Contempt_in_range:
  assumes "MinInt \<le> randMin" and "randMax \<le> MaxInt"
    and "randMin < randMax" and "randMax - randMin \<le> MaxInt"
  shows "\<exists>v. randMin \<le> v \<and> v < randMax \<and>
           randomContempt (Draw w) True randMin randMax baseParam
             = Inr (baseParam(''Contempt'' \<mapsto> Itoa v)) \<and>
           (\<forall>e. NewEngineWithAllOptions w exe depth ponder param True randMin randMax = Inr e \<longrightarrow>
                Param e ''Contempt'' = Some (case param ''Contempt'' of None \<Rightarrow> Itoa v | Some c \<Rightarrow> c))"
proof -
  let ?r = "Draw w mod (randMax - randMin)"
  let ?v = "?r + randMin"
  have pos: "0 < randMax - randMin" using assms by simp
  have r: "0 \<le> ?r" "?r < randMax - randMin"
    using pos by (simp_all add: pos_mod_sign pos_mod_bound)
  have n: "wrap_int (randMax - randMin) = randMax - randMin"
    using assms by (intro wrap_int_id) (simp_all add: MinInt_def)
  have v: "wrap_int ?v = ?v"
    using assms r by (intro wrap_int_id) linarith+
  have rc: "randomContempt (Draw w) True randMin randMax baseParam
              = Inr (baseParam(''Contempt'' \<mapsto> Itoa ?v))"
    using pos by (simp add: randomContempt_def Intn_def n v)
  have "Param e ''Contempt'' = Some (case param ''Contempt'' of None \<Rightarrow> Itoa ?v | Some c \<Rightarrow> c)"
    if "NewEngineWithAllOptions w exe depth ponder param True randMin randMax = Inr e" for e
    using NewEngine_Param [OF that rc] by (simp add: map_add_def split: option.splits)
  moreover have "randMin \<le> ?v" "?v < randMax" using r by linarith+
  ultimately show ?thesis
    using rc by (intro exI [of _ ?v]) simp
qed

theorem random_Contempt_in_range_witness:
  "\<exists>e. NewEngineWithAllOptions (world0 3) ''stockfish'' 2 True Map.empty True (- 10) 10 = Inr e \<and>
        Param e ''Contempt'' = Some ''-7''"
proof -
  obtain e where e: "NewEngineWithAllOptions (world0 3) ''stockfish'' 2 True Map.empty True (- 10) 10 = Inr e"
    using world0_returns by (auto split: sum.splits)
  have d: "Draw (world0 3) = 3" by (simp add: world0_def)
  obtain v where v: "randomContempt 3 True (- 10) 10 baseParam = Inr (baseParam(''Contempt'' \<mapsto> Itoa v))"
    and p: "Param e ''Contempt'' = Some (Itoa v)"
    using random_Contempt_in_range [of "- 10" 10 "world0 3" "''stockfish''" 2 True Map.empty] e d
    by (auto simp: MinInt_def MaxInt_def)
  have "randomContempt 3 True (- 10) 10 baseParam = Inr (baseParam(''Contempt'' \<mapsto> Itoa (- 7)))"
    by (simp add: randomContempt_def Intn_def wrap_int_def)
  with v have "Itoa v = Itoa (- 7)"
    by (auto dest: fun_cong [where x = "''Contempt''"])
  then show ?thesis using e p by (simp add: Itoa_def show_digits.simps digit_char_def)
qed

text \<open>
  C10, as stated, fails where \<open>randMax - randMin\<close> overflows: with the largest \<open>int\<close>
  as \<open>randMin\<close> and the smallest as \<open>randMax\<close> the difference wraps to 1, nothing
  panics, and the entry becomes the largest \<open>int\<close>.
\<close>

theorem nonpositive_range_wraps:
  "Contempt_of (NewEngineWithAllOptions (world0 0) ''stockfish'' 2 True Map.empty True
          9223372036854775807 (- 9223372036854775808))
     = Inr (Some ''9223372036854775807'')"
  by code_simp


text \<open>
  C10, amended. With both pipes open, \<open>random\<close> set, \<open>randMax \<le> randMin\<close> and a
  difference \<open>randMax - randMin\<close> that \<open>int\<close> can hold, the call panics in \<open>rand.Intn\<close>;
  it returns neither an engine nor an error.
\<close>

theorem nonpositive_range_panics:
  assumes "StdinPipe_err w = None" and "StdoutPipe_err w = None"
    and "randMax \<le> randMin" and "MinInt \<le> randMax - randMin"
  shows "NewEngineWithAllOptions w exe depth ponder param True randMin randMax
           = Inl (Panic ''invalid argument to Intn'')"
proof -
  have "wrap_int (randMax - randMin) = randMax - randMin"
    using assms by (intro wrap_int_id) (simp_all add: MaxInt_def)
  then show ?thesis
    using assms by (simp add: NewEngineWithAllOptions_def randomContempt_def Intn_def Let_def)
qed

theorem nonpositive_range_panics_witness:
  "NewEngineWithAllOptions (world0 0) ''stockfish'' 2 True Map.empty True 10 (- 10)
     = Inl (Panic ''invalid argument to Intn'')"
  using nonpositive_range_panics [of "world0 0" "- 10" 10 "''stockfish''" 2 True Map.empty]
  by (simp add: world0_def MinInt_def)



end
